theory Spec2Isabelle
  imports Complex_Main
begin

section \<open>The EFF newsletter subscription of certbot (certbot/\_internal/eff.py)\<close>

text \<open>
  The module has two entry points. \<open>prepare_subscription\<close> decides whether an e-mail
  address is staged in the account metadata (field \<open>register_to_eff\<close>), and
  \<open>handle_subscription\<close> later posts a staged address to the EFF and clears the field.
  Both mutate the objects they are given (\<open>config\<close>, \<open>acc\<close>) and act on the outside
  world (account storage, the network, the user's terminal). The embedding passes one
  record, \<open>world\<close>, that holds these objects and a log of each kind of outside effect;
  a Python exception is the \<open>Inl\<close> of the result, next to the world as the exception
  left it.
\<close>

subsection \<open>Exceptions\<close>

datatype type_error = MissingArgument | TooManyArguments | NotSubscriptable

text \<open>
  \<open>HTTPError\<close>, \<open>ValueError\<close> and \<open>KeyError\<close> are the three exceptions
  \<open>_check_response\<close> catches. \<open>TypeError\<close> and \<open>NameError\<close> are raised by the interpreter
  itself: a call whose argument count does not fit the \<open>def\<close>, a subscript on a value
  that has none, a name bound neither in the function, nor in the module, nor a builtin.
  \<open>AttributeError\<close> is \<open>acc.meta\<close> on \<open>None\<close>. \<open>ConnectionError\<close> and \<open>Timeout\<close> are
  what \<open>requests.post\<close> raises when no response arrives.
\<close>

datatype pyexc =
    HTTPError
  | ValueError
  | KeyError
  | TypeError type_error
  | NameError string
  | AttributeError
  | ConnectionError
  | Timeout

subsection \<open>Data\<close>

text \<open>
  The configuration fields the module reads: \<open>eff_email\<close> is \<open>True\<close>, \<open>False\<close> or
  \<open>None\<close> (neither --eff-mail nor --no-eff-mail given); the two addresses are a string
  or \<open>None\<close>.
\<close>

record config =
  eff_email :: "bool option"
  eff_email_address :: "string option"
  email :: "string option"
  dry_run :: bool

record account_meta =
  register_to_eff :: "string option"

record account =
  meta :: account_meta

text \<open>The decoded body of a response, as \<open>json.loads\<close> builds it: an object is a
  \<open>dict\<close> (its items, each key once), a number an \<open>int\<close> or a finite \<open>float\<close>.\<close>

datatype json =
    JNull
  | JBool bool
  | JNum rat
  | JStr string
  | JArr "json list"
  | JObj "(string \<times> json) list"

text \<open>
  A response of the server: its status code, and what \<open>response.json()\<close> does with its
  body: \<open>None\<close> when the body is not JSON (the call raises a \<open>ValueError\<close>), the decoded
  value otherwise.
\<close>

record response =
  status_code :: nat
  decoded :: "json option"

datatype post_outcome = Raises pyexc | Returns response

record post_request =
  url :: string
  data :: "(string \<times> string) list"

text \<open>What \<open>display_util\<close> shows the user: a \<open>notify\<close> message, a \<open>yesno\<close> question
  with its default, an \<open>input_text\<close> question.\<close>

datatype display_event = Notify string | YesNo string bool | InputText string

text \<open>
  What the module takes from outside itself: the constant
  \<open>constants.EFF_SUBSCRIBE_URI\<close>, the validator \<open>util.safe_email\<close>, what
  \<open>requests.post\<close> does at the one call a run of \<open>subscribe\<close> makes, and the user at
  the terminal: the answer to a yes/no question, given its message and its default, and
  what \<open>input_text\<close> does when it is called (it raises, or returns whether the status
  is \<open>display_util.OK\<close> together with the text entered).
\<close>

record env =
  EFF_SUBSCRIBE_URI :: string
  safe_email :: "string \<Rightarrow> bool"
  requests_post :: post_outcome
  yesno_answer :: "string \<Rightarrow> bool \<Rightarrow> bool"
  input_text_result :: "pyexc + bool \<times> string"

text \<open>
  The state the two entry points act on. \<open>config\<close> and \<open>acc\<close> are the objects passed by
  reference (\<open>acc\<close> is \<open>None\<close> when no account exists). The four logs grow by one entry
  per effect: \<open>storage\<close> by the metadata each \<open>update_meta\<close> writes, \<open>posts\<close> by each
  request handed to \<open>requests.post\<close>, \<open>display\<close> by each message or question shown,
  \<open>validated\<close> by each address handed to \<open>util.safe_email\<close>.
\<close>

record world =
  config :: config
  acc :: "account option"
  storage :: "account_meta list"
  posts :: "post_request list"
  display :: "display_event list"
  validated :: "string list"

type_synonym 'a result = "(pyexc + 'a) \<times> world"

subsection \<open>Truth values of Python\<close>

text \<open>\<open>if x:\<close> and \<open>not x\<close> on a string or \<open>None\<close>, and on a decoded JSON value.\<close>

fun truthy_str :: "string option \<Rightarrow> bool" where
  "truthy_str None = False"
| "truthy_str (Some s) = (s \<noteq> [])"

fun truthy :: "json \<Rightarrow> bool" where
  "truthy JNull = False"
| "truthy (JBool b) = b"
| "truthy (JNum r) = (r \<noteq> 0)"
| "truthy (JStr s) = (s \<noteq> [])"
| "truthy (JArr xs) = (xs \<noteq> [])"
| "truthy (JObj kvs) = (kvs \<noteq> [])"

subsection \<open>Collaborators\<close>

text \<open>Modelled from the spec: \<open>AccountFileStorage(config).update_meta(acc)\<close> of
  certbot/\_internal/account.py, which "persists the metadata record" of the account.\<close>

definition update_meta :: "account \<Rightarrow> world \<Rightarrow> unit result" where
  "update_meta a w = (Inr (), w\<lparr>storage := storage w @ [meta a]\<rparr>)"

text \<open>Modelled from the spec: \<open>display_util.notify(message)\<close> of certbot/display/util.py,
  "a fire-and-forget user-visible message".\<close>

definition notify :: "string \<Rightarrow> world \<Rightarrow> unit result" where
  "notify msg w = (Inr (), w\<lparr>display := display w @ [Notify msg]\<rparr>)"

text \<open>Modelled from the spec: \<open>display_util.yesno(message, default)\<close> of
  certbot/display/util.py, "yesno(message, default) -> bool": the question is shown with
  its default and the user's answer is returned.\<close>

definition yesno :: "env \<Rightarrow> string \<Rightarrow> bool \<Rightarrow> world \<Rightarrow> bool result" where
  "yesno env message default_answer w =
     (Inr (yesno_answer env message default_answer),
      w\<lparr>display := display w @ [YesNo message default_answer]\<rparr>)"

text \<open>Modelled from the spec: \<open>display_util.input_text(message, force_interactive=True)\<close>
  of certbot/display/util.py, "input_text(message, forceInteractive) -> (status, text)
  where status signals OK or cancel; fails with a missing flag condition when interaction
  is impossible".\<close>

definition input_text :: "env \<Rightarrow> string \<Rightarrow> world \<Rightarrow> (bool \<times> string) result" where
  "input_text env message w =
     (case input_text_result env of
        Inl e \<Rightarrow> (Inl e, w)
      | Inr entered \<Rightarrow> (Inr entered, w\<lparr>display := display w @ [InputText message]\<rparr>))"

text \<open>\<open>response.raise_for_status()\<close> of the requests library raises \<open>HTTPError\<close> for a
  client error (4xx) or a server error (5xx) and returns for every other status.\<close>

definition raise_for_status :: "response \<Rightarrow> pyexc + unit" where
  "raise_for_status r =
     (if 400 \<le> status_code r \<and> status_code r < 600 then Inl HTTPError else Inr ())"

definition response_json :: "response \<Rightarrow> pyexc + json" where
  "response_json r = (case decoded r of None \<Rightarrow> Inl ValueError | Some j \<Rightarrow> Inr j)"

text \<open>\<open>value[key]\<close> with a string key: a lookup on a \<open>dict\<close> (\<open>KeyError\<close> when the key is
  missing), a \<open>TypeError\<close> on every other decoded value (a list or a string takes
  integer indices only; a number, a boolean and \<open>None\<close> take none).\<close>

fun getitem :: "json \<Rightarrow> string \<Rightarrow> pyexc + json" where
  "getitem (JObj kvs) k = (case map_of kvs k of None \<Rightarrow> Inl KeyError | Some v \<Rightarrow> Inr v)"
| "getitem JNull k = Inl (TypeError NotSubscriptable)"
| "getitem (JBool b) k = Inl (TypeError NotSubscriptable)"
| "getitem (JNum r) k = Inl (TypeError NotSubscriptable)"
| "getitem (JStr s) k = Inl (TypeError NotSubscriptable)"
| "getitem (JArr xs) k = Inl (TypeError NotSubscriptable)"

subsection \<open>Reporting and classifying (lines 125-158)\<close>

definition failure_message :: "string option \<Rightarrow> string" where
  "failure_message reason =
     ''We were unable to subscribe you the EFF mailing list''
     @ (case reason of None \<Rightarrow> [] | Some r \<Rightarrow> '' because '' @ r)
     @ ''. You can try again later by visiting https://act.eff.org.''"

definition report_failure :: "string option \<Rightarrow> world \<Rightarrow> unit result" where
  "report_failure reason w = notify (failure_message reason) w"

text \<open>The body of the \<open>try\<close> of \<open>_check_response\<close> (lines 136-138).\<close>

definition check_response_try :: "response \<Rightarrow> world \<Rightarrow> unit result" where
  "check_response_try r w =
     (case raise_for_status r of
        Inl e \<Rightarrow> (Inl e, w)
      | Inr _ \<Rightarrow>
         (case response_json r of
            Inl e \<Rightarrow> (Inl e, w)
          | Inr j \<Rightarrow>
             (case getitem j ''status'' of
                Inl e \<Rightarrow> (Inl e, w)
              | Inr v \<Rightarrow>
                 (if \<not> truthy v
                  then report_failure (Some ''your e-mail address appears to be invalid'') w
                  else (Inr (), w)))))"

text \<open>Its two \<open>except\<close> clauses (lines 139-142); any other exception goes on to the
  caller.\<close>

fun check_response_except :: "pyexc \<Rightarrow> world \<Rightarrow> unit result" where
  "check_response_except HTTPError w = report_failure None w"
| "check_response_except ValueError w =
     report_failure (Some ''there was a problem with the server response'') w"
| "check_response_except KeyError w =
     report_failure (Some ''there was a problem with the server response'') w"
| "check_response_except e w = (Inl e, w)"

definition check_response :: "response \<Rightarrow> world \<Rightarrow> unit result" where
  "check_response r w =
     (case check_response_try r w of
        (Inl e, w') \<Rightarrow> check_response_except e w'
      | (Inr u, w') \<Rightarrow> (Inr u, w'))"

subsection \<open>subscribe (lines 110-122)\<close>

definition subscribe_request :: "env \<Rightarrow> string \<Rightarrow> post_request" where
  "subscribe_request env addr =
     \<lparr>url = EFF_SUBSCRIBE_URI env,
      data = [(''data_type'', ''json''),
              (''email'', addr),
              (''form_id'', ''eff_supporters_library_subscribe_form'')]\<rparr>"

text \<open>\<open>requests.post(url, data=data)\<close> is evaluated as the argument of
  \<open>_check_response\<close>, outside its \<open>try\<close>: an exception of the call leaves \<open>subscribe\<close>
  at once.\<close>

definition subscribe :: "env \<Rightarrow> string \<Rightarrow> world \<Rightarrow> unit result" where
  "subscribe env addr w =
     (let w1 = w\<lparr>posts := posts w @ [subscribe_request env addr]\<rparr>
      in case requests_post env of
           Raises e \<Rightarrow> (Inl e, w1)
         | Returns r \<Rightarrow> check_response r w1)"

subsection \<open>handle\_subscription (lines 45-60)\<close>

definition handle_subscription :: "env \<Rightarrow> world \<Rightarrow> unit result" where
  "handle_subscription env w =
     (if dry_run (config w) then (Inr (), w)
      else case acc w of
        None \<Rightarrow> (Inr (), w)
      | Some a \<Rightarrow>
         (case register_to_eff (meta a) of
            None \<Rightarrow> (Inr (), w)
          | Some addr \<Rightarrow>
             (if truthy_str (Some addr) then
                (case subscribe env addr w of
                   (Inl e, w1) \<Rightarrow> (Inl e, w1)
                 | (Inr _, w1) \<Rightarrow>
                     (let a' = a\<lparr>meta := (meta a)\<lparr>register_to_eff := None\<rparr>\<rparr>
                      in update_meta a' (w1\<lparr>acc := Some a'\<rparr>)))
              else (Inr (), w))))"

subsection \<open>The two prompting helpers (lines 63-107)\<close>

text \<open>
  Every expression below is evaluated as Python evaluates it in this module: a name that
  is no local of the function, no name the module binds (its imports, \<open>logger\<close> and its
  seven functions) and no builtin raises \<open>NameError\<close> when it is read. Four such names
  are read: \<open>invalid\<close> and \<open>msg\<close> (line 81), \<open>config\<close> (lines 92 and 94) and \<open>errors\<close>
  (lines 98 and 105).
\<close>

text \<open>The argument of \<open>yesno\<close> at line 81, \<open>invalid_prefix + prompt if invalid else msg\<close>:
  the condition is evaluated first, and \<open>invalid\<close> is unbound (the parameter is
  \<open>invalid_email\<close>).\<close>

definition want_subscription_message :: "pyexc + string" where
  "want_subscription_message = Inl (NameError ''invalid'')"

text \<open>The call of line 81, \<open>display_util.yesno(..., default=False)\<close>, once its message
  is evaluated.\<close>

definition ask_consent :: "env \<Rightarrow> string \<Rightarrow> world \<Rightarrow> bool result" where
  "ask_consent env message w = yesno env message False w"

text \<open>
  \<open>_want_subscription\<close> is declared with one required parameter, \<open>invalid_email\<close>.
  A call with no argument raises \<open>TypeError\<close> before the body runs. With one argument
  the body binds \<open>invalid_prefix\<close> and \<open>prompt\<close> (lines 72-80) and returns what the call
  of line 81 returns; the arguments of a call are evaluated before the call is made.
  The argument list is the list of values the call site passes.
\<close>

fun want_subscription :: "env \<Rightarrow> bool list \<Rightarrow> world \<Rightarrow> bool result" where
  "want_subscription env [] w = (Inl (TypeError MissingArgument), w)"
| "want_subscription env [invalid_email] w =
     (case want_subscription_message of
        Inl e \<Rightarrow> (Inl e, w)
      | Inr message \<Rightarrow> ask_consent env message w)"
| "want_subscription env (x # y # zs) w = (Inl (TypeError TooManyArguments), w)"

text \<open>The assignment of line 92 builds the question from \<open>config.email\<close>, and
  \<open>config\<close> is neither a parameter nor a name of the module (which imports
  \<open>configuration\<close>).\<close>

definition reuse_email_msg :: "pyexc + string" where
  "reuse_email_msg = Inl (NameError ''config'')"

text \<open>The call of line 93, \<open>display_util.yesno(reuse_email_msg, default=False)\<close>.\<close>

definition ask_reuse :: "env \<Rightarrow> string \<Rightarrow> world \<Rightarrow> bool result" where
  "ask_reuse env message w = yesno env message False w"

text \<open>
  Lines 95-107. An exception of \<open>input_text\<close> meets the clause
  \<open>except errors.MissingCommandlineFlag\<close>, whose expression is evaluated to match the
  exception: \<open>errors\<close> is unbound, and the \<open>NameError\<close> takes the exception's place. A
  status other than OK reaches \<open>raise errors.Error(...)\<close>: \<open>NameError\<close> again. Otherwise
  the text entered is validated and returned, or the function falls off its end and
  returns \<open>None\<close>.
\<close>

definition enter_email :: "env \<Rightarrow> world \<Rightarrow> (string option) result" where
  "enter_email env w =
     (case input_text env
             (''Enter email address you'd like to share with the EFF'' @ [CHR 0x0A]) w of
        (Inl e, w1) \<Rightarrow> (Inl (NameError ''errors''), w1)
      | (Inr (ok, entered), w1) \<Rightarrow>
          (if \<not> ok then (Inl (NameError ''errors''), w1)
           else (if safe_email env entered then Inr (Some entered) else Inr None,
                 w1\<lparr>validated := validated w1 @ [entered]\<rparr>)))"

text \<open>
  \<open>_get_subscription_email\<close> is declared with no parameter: a call with an argument
  raises \<open>TypeError\<close>. With none, line 92 is its first statement; after a yes to the
  question of line 93, line 94 returns \<open>config.email\<close>, which reads \<open>config\<close> again.
\<close>

fun get_subscription_email :: "env \<Rightarrow> bool list \<Rightarrow> world \<Rightarrow> (string option) result" where
  "get_subscription_email env [] w =
     (case reuse_email_msg of
        Inl e \<Rightarrow> (Inl e, w)
      | Inr message \<Rightarrow>
          (case ask_reuse env message w of
             (Inl e, w1) \<Rightarrow> (Inl e, w1)
           | (Inr reuse, w1) \<Rightarrow>
               (if reuse then (Inl (NameError ''config''), w1) else enter_email env w1)))"
| "get_subscription_email env (x # xs) w = (Inl (TypeError TooManyArguments), w)"

subsection \<open>prepare\_subscription (lines 17-42)\<close>

text \<open>How a block of statements is left: by a \<open>return\<close>, or by running off its end
  into the statement that follows.\<close>

datatype flow = Returned | Next

text \<open>The loop condition (line 35), \<open>not a or not util.safe_email(a)\<close> for
  \<open>a = config.eff_email_address\<close>: the validator is called only on a non-empty
  string.\<close>

definition address_rejected :: "env \<Rightarrow> world \<Rightarrow> bool \<times> world" where
  "address_rejected env w =
     (case eff_email_address (config w) of
        None \<Rightarrow> (True, w)
      | Some a \<Rightarrow>
         (if a = [] then (True, w)
          else (\<not> safe_email env a, w\<lparr>validated := validated w @ [a]\<rparr>)))"

definition set_eff_email_address :: "string option \<Rightarrow> world \<Rightarrow> world" where
  "set_eff_email_address a w = w\<lparr>config := (config w)\<lparr>eff_email_address := a\<rparr>\<rparr>"

text \<open>The \<open>while\<close> loop of lines 35-38. The loop goes round again only after
  \<open>_want_subscription(True)\<close> has returned, which it never does: that is the
  termination argument, and the user's answers play no part in it.\<close>

function reask_loop :: "env \<Rightarrow> world \<Rightarrow> flow result" where
  "reask_loop env w =
     (case address_rejected env w of
        (rejected, w1) \<Rightarrow>
          (if rejected then
             (case want_subscription env [True] w1 of
                (Inl e, w2) \<Rightarrow> (Inl e, w2)
              | (Inr wanted, w2) \<Rightarrow>
                  (if \<not> wanted then (Inr Returned, w2)
                   else
                     (case get_subscription_email env [True] w2 of
                        (Inl e, w3) \<Rightarrow> (Inl e, w3)
                      | (Inr a, w3) \<Rightarrow> reask_loop env (set_eff_email_address a w3))))
           else (Inr Next, w1)))"
  by pat_completeness auto
termination
  by (relation "{}") (auto simp: want_subscription_message_def)

text \<open>Lines 33-39: obtain an address, re-ask while it is rejected, stage it.\<close>

definition stage_address :: "env \<Rightarrow> world \<Rightarrow> flow result" where
  "stage_address env w =
     (case (if \<not> truthy_str (eff_email_address (config w)) then
              (case get_subscription_email env [] w of
                 (Inl e, w1) \<Rightarrow> (Inl e, w1)
               | (Inr a, w1) \<Rightarrow> (Inr (), set_eff_email_address a w1))
            else (Inr (), w)) of
        (Inl e, w1) \<Rightarrow> (Inl e, w1)
      | (Inr _, w1) \<Rightarrow>
         (case reask_loop env w1 of
            (Inl e, w2) \<Rightarrow> (Inl e, w2)
          | (Inr Returned, w2) \<Rightarrow> (Inr Returned, w2)
          | (Inr Next, w2) \<Rightarrow>
             (case acc w2 of
                None \<Rightarrow> (Inl AttributeError, w2)
              | Some a \<Rightarrow>
                 (Inr Next,
                  w2\<lparr>acc := Some (a\<lparr>meta := (meta a)\<lparr>register_to_eff :=
                                         eff_email_address (config w2)\<rparr>\<rparr>)\<rparr>))))"

text \<open>Lines 40-42: persist the metadata when an address is pending.\<close>

definition persist_pending :: "world \<Rightarrow> unit result" where
  "persist_pending w =
     (case acc w of
        None \<Rightarrow> (Inl AttributeError, w)
      | Some a \<Rightarrow>
         (if truthy_str (register_to_eff (meta a)) then update_meta a w else (Inr (), w)))"

definition prepare_subscription :: "env \<Rightarrow> world \<Rightarrow> unit result" where
  "prepare_subscription env w =
     (if eff_email (config w) = Some False then (Inr (), w)
      else
        (case (if eff_email (config w) = Some True then (Inr True, w)
               else want_subscription env [] w) of
           (Inl e, w1) \<Rightarrow> (Inl e, w1)
         | (Inr wanted, w1) \<Rightarrow>
            (case (if wanted then stage_address env w1 else (Inr Next, w1)) of
               (Inl e, w2) \<Rightarrow> (Inl e, w2)
             | (Inr Returned, w2) \<Rightarrow> (Inr (), w2)
             | (Inr Next, w2) \<Rightarrow> persist_pending w2)))"

subsection \<open>Shapes of a response\<close>

text \<open>The statuses \<open>raise_for_status\<close> rejects, and the responses \<open>_check_response\<close>
  has a branch for: a rejected status, a body that is not JSON, a JSON object.\<close>

definition http_error :: "response \<Rightarrow> bool" where
  "http_error r = (400 \<le> status_code r \<and> status_code r < 600)"

fun is_object :: "json \<Rightarrow> bool" where
  "is_object (JObj kvs) = True"
| "is_object j = False"

definition classified :: "response \<Rightarrow> bool" where
  "classified r =
     (if http_error r then True
      else case decoded r of None \<Rightarrow> True | Some j \<Rightarrow> is_object j)"

subsection \<open>The run that asks nothing\<close>


subsection \<open>Concrete inputs\<close>

text \<open>A validator, a user, an environment, a configuration and a world to run the
  definitions on: the validator stands for \<open>util.safe_email\<close> and accepts what holds an
  at sign; the user accepts the default of every yes/no question.\<close>

definition example_safe_email :: "string \<Rightarrow> bool" where
  "example_safe_email s = (CHR ''@'' \<in> set s)"

definition example_answer :: "string \<Rightarrow> bool \<Rightarrow> bool" where
  "example_answer message default_answer = default_answer"

definition example_env :: "post_outcome \<Rightarrow> env" where
  "example_env out =
     \<lparr>EFF_SUBSCRIBE_URI = ''https://supporters.eff.org/subscribe/certbot'',
      safe_email = example_safe_email,
      requests_post = out,
      yesno_answer = example_answer,
      input_text_result = Inr (True, ''user@example.org'')\<rparr>"

definition example_config :: "bool option \<Rightarrow> string option \<Rightarrow> bool \<Rightarrow> config" where
  "example_config preference address dry =
     \<lparr>eff_email = preference, eff_email_address = address,
      email = Some ''admin@example.org'', dry_run = dry\<rparr>"

definition example_world :: "config \<Rightarrow> string option \<Rightarrow> world" where
  "example_world c pending =
     \<lparr>config = c, acc = Some \<lparr>meta = \<lparr>register_to_eff = pending\<rparr>\<rparr>,
      storage = [], posts = [], display = [], validated = []\<rparr>"

section \<open>What each branch of \_check\_response does\<close>

lemma raise_for_status_eq:
  "raise_for_status r = (if http_error r then Inl HTTPError else Inr ())"
  by (simp add: raise_for_status_def http_error_def)

lemma failure_message_None:
  "failure_message None =
     ''We were unable to subscribe you the EFF mailing list. You can try again later by visiting https://act.eff.org.''"
  by (simp add: failure_message_def)

lemma check_response_http_error:
  "http_error r \<Longrightarrow>
     check_response r w = (Inr (), w\<lparr>display := display w @ [Notify (failure_message None)]\<rparr>)"
  by (simp add: check_response_def check_response_try_def raise_for_status_eq
      report_failure_def notify_def)

lemma check_response_not_json:
  "\<not> http_error r \<Longrightarrow> decoded r = None \<Longrightarrow>
     check_response r w =
       (Inr (), w\<lparr>display := display w @
          [Notify (failure_message (Some ''there was a problem with the server response''))]\<rparr>)"
  by (simp add: check_response_def check_response_try_def raise_for_status_eq
      response_json_def report_failure_def notify_def)

lemma check_response_no_status:
  "\<not> http_error r \<Longrightarrow> decoded r = Some (JObj kvs) \<Longrightarrow> map_of kvs ''status'' = None \<Longrightarrow>
     check_response r w =
       (Inr (), w\<lparr>display := display w @
          [Notify (failure_message (Some ''there was a problem with the server response''))]\<rparr>)"
  by (simp add: check_response_def check_response_try_def raise_for_status_eq
      response_json_def report_failure_def notify_def)

lemma check_response_status:
  "\<not> http_error r \<Longrightarrow> decoded r = Some (JObj kvs) \<Longrightarrow> map_of kvs ''status'' = Some v \<Longrightarrow>
     check_response r w =
       (if truthy v then (Inr (), w)
        else (Inr (), w\<lparr>display := display w @
          [Notify (failure_message (Some ''your e-mail address appears to be invalid''))]\<rparr>))"
  by (simp add: check_response_def check_response_try_def raise_for_status_eq
      response_json_def report_failure_def notify_def)

lemma check_response_not_object:
  "\<not> http_error r \<Longrightarrow> decoded r = Some j \<Longrightarrow> \<not> is_object j \<Longrightarrow>
     check_response r w = (Inl (TypeError NotSubscriptable), w)"
  by (cases j) (simp_all add: check_response_def check_response_try_def
      raise_for_status_eq response_json_def)

text \<open>On a classified response \<open>_check_response\<close> returns, and all it does is notify.\<close>

lemma check_response_classified:
  assumes "classified r"
  shows "\<exists>ns. check_response r w = (Inr (), w\<lparr>display := display w @ ns\<rparr>)"
proof (cases "http_error r")
  case True
  then show ?thesis using check_response_http_error by blast
next
  case False
  show ?thesis
  proof (cases "decoded r")
    case None
    with False show ?thesis using check_response_not_json by blast
  next
    case (Some j)
    with assms False obtain kvs where j: "j = JObj kvs"
      by (cases j) (simp_all add: classified_def)
    show ?thesis
    proof (cases "map_of kvs ''status''")
      case None
      with False Some j show ?thesis using check_response_no_status by blast
    next
      case (Some v)
      have "check_response r w = (Inr (), w\<lparr>display := display w @ (if truthy v then [] else
          [Notify (failure_message (Some ''your e-mail address appears to be invalid''))])\<rparr>)"
        using check_response_status [OF False \<open>decoded r = Some j\<close> [unfolded j] Some, of w]
        by simp
      then show ?thesis by blast
    qed
  qed
qed

section \<open>The loop of prepare\_subscription\<close>

text \<open>The re-asking call of line 36 raises whenever it is reached, so the loop body
  never completes: the loop either is not entered or ends in the \<open>NameError\<close>.\<close>

lemma reask_loop_once:
  "reask_loop env w =
     (case address_rejected env w of
        (rejected, w1) \<Rightarrow>
          if rejected then (Inl (NameError ''invalid''), w1) else (Inr Next, w1))"
  by (subst reask_loop.simps) (simp add: want_subscription_message_def split: prod.splits)

section \<open>subscribe and handle\_subscription\<close>

lemma subscribe_returns:
  "requests_post env = Returns r \<Longrightarrow>
     subscribe env addr w = check_response r (w\<lparr>posts := posts w @ [subscribe_request env addr]\<rparr>)"
  by (simp add: subscribe_def)

lemma subscribe_raises:
  "requests_post env = Raises x \<Longrightarrow>
     subscribe env addr w = (Inl x, w\<lparr>posts := posts w @ [subscribe_request env addr]\<rparr>)"
  by (simp add: subscribe_def)

lemma handle_subscription_pending:
  "\<not> dry_run (config w) \<Longrightarrow> acc w = Some a \<Longrightarrow> register_to_eff (meta a) = Some addr \<Longrightarrow>
   addr \<noteq> [] \<Longrightarrow>
     handle_subscription env w =
       (case subscribe env addr w of
          (Inl e, w1) \<Rightarrow> (Inl e, w1)
        | (Inr u, w1) \<Rightarrow>
            (Inr (), w1\<lparr>acc := Some (a\<lparr>meta := (meta a)\<lparr>register_to_eff := None\<rparr>\<rparr>),
                        storage := storage w1 @ [(meta a)\<lparr>register_to_eff := None\<rparr>]\<rparr>))"
  by (simp add: handle_subscription_def update_meta_def Let_def split: prod.splits sum.splits)

lemma handle_subscription_nothing_pending:
  "acc w = Some a \<Longrightarrow> register_to_eff (meta a) = None \<Longrightarrow>
     handle_subscription env w = (Inr (), w)"
  by (simp add: handle_subscription_def)

text \<open>
  C1 (as the code has it). An account holds a pending address that is not the empty
  string, and the run is no dry run. When \<open>requests.post\<close> returns a response that
  \<open>_check_response\<close> has a branch for (success or a reported failure), one call of
  \<open>handle_subscription\<close> returns normally, makes one POST, clears the pending field and
  persists the cleared metadata, and a second call on the resulting world does nothing,
  whatever the network would answer. When \<open>requests.post\<close> raises, the exception
  leaves \<open>handle_subscription\<close> after the one POST: the field is neither cleared nor
  persisted.
\<close>

theorem handle_subscription_attempts_once:
  assumes "\<not> dry_run (config w)" and "acc w = Some a"
    and "register_to_eff (meta a) = Some addr" and "addr \<noteq> []"
  shows "(requests_post env = Returns r \<and> classified r \<longrightarrow>
            fst (handle_subscription env w) = Inr () \<and>
            acc (snd (handle_subscription env w)) =
              Some (a\<lparr>meta := (meta a)\<lparr>register_to_eff := None\<rparr>\<rparr>) \<and>
            storage (snd (handle_subscription env w)) =
              storage w @ [(meta a)\<lparr>register_to_eff := None\<rparr>] \<and>
            posts (snd (handle_subscription env w)) = posts w @ [subscribe_request env addr] \<and>
            (\<forall>env'. handle_subscription env' (snd (handle_subscription env w)) =
               (Inr (), snd (handle_subscription env w)))) \<and>
         (requests_post env = Raises x \<longrightarrow>
            handle_subscription env w =
              (Inl x, w\<lparr>posts := posts w @ [subscribe_request env addr]\<rparr>))"
proof (intro conjI impI)
  assume "requests_post env = Raises x"
  then show "handle_subscription env w =
      (Inl x, w\<lparr>posts := posts w @ [subscribe_request env addr]\<rparr>)"
    using assms by (simp add: handle_subscription_pending subscribe_raises)
next
  assume r: "requests_post env = Returns r \<and> classified r"
  define w0 where "w0 = w\<lparr>posts := posts w @ [subscribe_request env addr]\<rparr>"
  from r obtain ns where "check_response r w0 = (Inr (), w0\<lparr>display := display w0 @ ns\<rparr>)"
    using check_response_classified by blast
  with r have s: "subscribe env addr w = (Inr (), w0\<lparr>display := display w0 @ ns\<rparr>)"
    by (simp add: subscribe_returns w0_def)
  define w' where "w' = w0\<lparr>display := display w0 @ ns,
      acc := Some (a\<lparr>meta := (meta a)\<lparr>register_to_eff := None\<rparr>\<rparr>),
      storage := storage w0 @ [(meta a)\<lparr>register_to_eff := None\<rparr>]\<rparr>"
  have h: "handle_subscription env w = (Inr (), w')"
    using assms s by (simp add: handle_subscription_pending w'_def)
  show "fst (handle_subscription env w) = Inr ()" by (simp add: h)
  show "acc (snd (handle_subscription env w)) =
      Some (a\<lparr>meta := (meta a)\<lparr>register_to_eff := None\<rparr>\<rparr>)"
    by (simp add: h w'_def)
  show "storage (snd (handle_subscription env w)) =
      storage w @ [(meta a)\<lparr>register_to_eff := None\<rparr>]"
    by (simp add: h w'_def w0_def)
  show "posts (snd (handle_subscription env w)) = posts w @ [subscribe_request env addr]"
    by (simp add: h w'_def w0_def)
  have "handle_subscription env' w' = (Inr (), w')" for env'
    by (rule handle_subscription_nothing_pending
          [where a = "a\<lparr>meta := (meta a)\<lparr>register_to_eff := None\<rparr>\<rparr>"])
       (simp_all add: w'_def)
  then show "\<forall>env'. handle_subscription env' (snd (handle_subscription env w)) =
      (Inr (), snd (handle_subscription env w))"
    by (simp add: h)
qed

theorem handle_subscription_attempts_once_witness:
  "\<not> dry_run (config (example_world (example_config None None False) (Some ''user@example.org'')))
   \<and> acc (example_world (example_config None None False) (Some ''user@example.org''))
       = Some \<lparr>meta = \<lparr>register_to_eff = Some ''user@example.org''\<rparr>\<rparr>
   \<and> ''user@example.org'' \<noteq> []
   \<and> classified \<lparr>status_code = 500, decoded = None\<rparr>
   \<and> fst (handle_subscription (example_env (Returns \<lparr>status_code = 500, decoded = None\<rparr>))
        (example_world (example_config None None False) (Some ''user@example.org''))) = Inr ()
   \<and> acc (snd (handle_subscription (example_env (Returns \<lparr>status_code = 500, decoded = None\<rparr>))
        (example_world (example_config None None False) (Some ''user@example.org''))))
       = Some \<lparr>meta = \<lparr>register_to_eff = None\<rparr>\<rparr>
   \<and> storage (snd (handle_subscription (example_env (Returns \<lparr>status_code = 500, decoded = None\<rparr>))
        (example_world (example_config None None False) (Some ''user@example.org''))))
       = [\<lparr>register_to_eff = None\<rparr>]
   \<and> handle_subscription (example_env (Raises Timeout))
        (example_world (example_config None None False) (Some ''user@example.org''))
       = (Inl Timeout,
          (example_world (example_config None None False) (Some ''user@example.org''))
            \<lparr>posts := [subscribe_request (example_env (Raises Timeout)) ''user@example.org'']\<rparr>)"
  using handle_subscription_attempts_once
    [of "example_world (example_config None None False) (Some ''user@example.org'')"
        "\<lparr>meta = \<lparr>register_to_eff = Some ''user@example.org''\<rparr>\<rparr>" "''user@example.org''"
        "example_env (Returns \<lparr>status_code = 500, decoded = None\<rparr>)"
        "\<lparr>status_code = 500, decoded = None\<rparr>" Timeout]
    handle_subscription_attempts_once
    [of "example_world (example_config None None False) (Some ''user@example.org'')"
        "\<lparr>meta = \<lparr>register_to_eff = Some ''user@example.org''\<rparr>\<rparr>" "''user@example.org''"
        "example_env (Raises Timeout)"
        "\<lparr>status_code = 500, decoded = None\<rparr>" Timeout]
  by (simp add: example_world_def example_config_def example_env_def classified_def http_error_def)

text \<open>
  C1 as stated fails: when the POST raises \<open>ConnectionError\<close> the pending address stays
  staged and nothing is persisted, so a second call posts it again (two requests in the
  log). And a pending field that holds the empty string is not \<open>None\<close>, yet it is
  neither submitted nor cleared.
\<close>

theorem handle_subscription_transport_failure_counterexample:
  "handle_subscription (example_env (Raises ConnectionError))
      (example_world (example_config None None False) (Some ''user@example.org''))
     = (Inl ConnectionError,
        (example_world (example_config None None False) (Some ''user@example.org''))
          \<lparr>posts := [subscribe_request (example_env (Raises ConnectionError)) ''user@example.org'']\<rparr>)
   \<and> posts (snd (handle_subscription (example_env (Raises ConnectionError))
        (snd (handle_subscription (example_env (Raises ConnectionError))
          (example_world (example_config None None False) (Some ''user@example.org''))))))
     = [subscribe_request (example_env (Raises ConnectionError)) ''user@example.org'',
        subscribe_request (example_env (Raises ConnectionError)) ''user@example.org'']
   \<and> handle_subscription (example_env (Raises ConnectionError))
        (example_world (example_config None None False) (Some []))
     = (Inr (), example_world (example_config None None False) (Some []))"
  by (simp add: handle_subscription_def subscribe_def example_world_def example_config_def
      example_env_def)

text \<open>
  C7. In a dry run \<open>handle_subscription\<close> returns at once and leaves the whole world
  as it was, whether an account is present or not and whatever its pending field holds:
  no request is posted, the account keeps its metadata, nothing is written to storage.
\<close>

theorem handle_subscription_dry_run:
  "dry_run (config w) \<Longrightarrow> handle_subscription env w = (Inr (), w)"
  by (simp add: handle_subscription_def)

theorem handle_subscription_dry_run_witness:
  "dry_run (config (example_world (example_config None None True) (Some ''user@example.org'')))
   \<and> handle_subscription
        (example_env (Returns \<lparr>status_code = 200, decoded = Some (JObj [(''status'', JBool True)])\<rparr>))
        (example_world (example_config None None True) (Some ''user@example.org''))
     = (Inr (), example_world (example_config None None True) (Some ''user@example.org''))"
  using handle_subscription_dry_run
    [of "example_world (example_config None None True) (Some ''user@example.org'')"
        "example_env (Returns \<lparr>status_code = 200, decoded = Some (JObj [(''status'', JBool True)])\<rparr>)"]
  by (simp add: example_world_def example_config_def)

lemma check_response_posts: "posts (snd (check_response r w)) = posts w"
proof (cases "classified r")
  case True
  then obtain ns where "check_response r w = (Inr (), w\<lparr>display := display w @ ns\<rparr>)"
    using check_response_classified by blast
  then show ?thesis by simp
next
  case False
  then obtain j where "\<not> http_error r" "decoded r = Some j" "\<not> is_object j"
    by (auto simp: classified_def split: if_splits option.splits)
  then show ?thesis by (simp add: check_response_not_object)
qed

text \<open>
  C8. For every address, \<open>subscribe\<close> hands exactly one request to \<open>requests.post\<close>:
  its URL is the subscription endpoint, and its form data has the three fields
  \<open>data_type\<close> = json, \<open>email\<close> = the address and \<open>form_id\<close> =
  eff\_supporters\_library\_subscribe\_form, whatever the network answers.
\<close>

theorem subscribe_one_post:
  "posts (snd (subscribe env addr w)) =
     posts w @ [\<lparr>url = EFF_SUBSCRIBE_URI env,
                 data = [(''data_type'', ''json''), (''email'', addr),
                         (''form_id'', ''eff_supporters_library_subscribe_form'')]\<rparr>]"
  by (cases "requests_post env")
     (simp_all add: subscribe_def subscribe_request_def check_response_posts)

text \<open>
  C2 (as the code has it). A response with a 4xx or 5xx status makes \<open>subscribe\<close> show
  one notification without a reason clause and return normally. A response with any
  other status is treated as the same response with status 200 would be: by its body
  alone. When \<open>requests.post\<close> raises, \<open>subscribe\<close> shows nothing and the exception goes
  on to its caller.
\<close>

theorem subscribe_http_error_or_transport:
  "(requests_post env = Returns r \<and> http_error r \<longrightarrow>
      subscribe env addr w =
        (Inr (), w\<lparr>posts := posts w @ [subscribe_request env addr],
                   display := display w @ [Notify
  ''We were unable to subscribe you the EFF mailing list. You can try again later by visiting https://act.eff.org.'']\<rparr>)) \<and>
   (requests_post env = Returns r \<and> \<not> http_error r \<longrightarrow>
      subscribe env addr w =
        subscribe (env\<lparr>requests_post := Returns (r\<lparr>status_code := 200\<rparr>)\<rparr>) addr w) \<and>
   (requests_post env = Raises x \<longrightarrow>
      subscribe env addr w = (Inl x, w\<lparr>posts := posts w @ [subscribe_request env addr]\<rparr>))"
proof (intro conjI impI)
  assume "requests_post env = Returns r \<and> http_error r"
  then show "subscribe env addr w =
        (Inr (), w\<lparr>posts := posts w @ [subscribe_request env addr],
                   display := display w @ [Notify
  ''We were unable to subscribe you the EFF mailing list. You can try again later by visiting https://act.eff.org.'']\<rparr>)"
    by (simp add: subscribe_returns check_response_http_error failure_message_None)
next
  assume a: "requests_post env = Returns r \<and> \<not> http_error r"
  have "\<not> http_error (r\<lparr>status_code := 200\<rparr>)" by (simp add: http_error_def)
  with a have "check_response (r\<lparr>status_code := 200\<rparr>) v = check_response r v" for v
    by (simp add: check_response_def check_response_try_def raise_for_status_eq response_json_def)
  with a show "subscribe env addr w =
        subscribe (env\<lparr>requests_post := Returns (r\<lparr>status_code := 200\<rparr>)\<rparr>) addr w"
    by (simp add: subscribe_def subscribe_request_def)
next
  assume "requests_post env = Raises x"
  then show "subscribe env addr w = (Inl x, w\<lparr>posts := posts w @ [subscribe_request env addr]\<rparr>)"
    by (rule subscribe_raises)
qed

theorem subscribe_http_error_or_transport_witness:
  "http_error \<lparr>status_code = 500, decoded = None\<rparr>
   \<and> subscribe (example_env (Returns \<lparr>status_code = 500, decoded = None\<rparr>)) ''user@example.org''
        (example_world (example_config None None False) (Some ''user@example.org''))
     = (Inr (), (example_world (example_config None None False) (Some ''user@example.org''))
          \<lparr>posts := [subscribe_request (example_env (Returns \<lparr>status_code = 500, decoded = None\<rparr>))
                       ''user@example.org''],
           display := [Notify
  ''We were unable to subscribe you the EFF mailing list. You can try again later by visiting https://act.eff.org.'']\<rparr>)
   \<and> \<not> http_error \<lparr>status_code = 302, decoded = Some (JObj [(''status'', JBool False)])\<rparr>
   \<and> subscribe (example_env (Returns \<lparr>status_code = 302, decoded = Some (JObj [(''status'', JBool False)])\<rparr>))
        ''user@example.org'' (example_world (example_config None None False) (Some ''user@example.org''))
     = subscribe (example_env (Returns \<lparr>status_code = 200, decoded = Some (JObj [(''status'', JBool False)])\<rparr>))
        ''user@example.org'' (example_world (example_config None None False) (Some ''user@example.org''))
   \<and> subscribe (example_env (Raises Timeout)) ''user@example.org''
        (example_world (example_config None None False) (Some ''user@example.org''))
     = (Inl Timeout, (example_world (example_config None None False) (Some ''user@example.org''))
          \<lparr>posts := [subscribe_request (example_env (Raises Timeout)) ''user@example.org'']\<rparr>)"
  using subscribe_http_error_or_transport
    [of "example_env (Returns \<lparr>status_code = 500, decoded = None\<rparr>)"
        "\<lparr>status_code = 500, decoded = None\<rparr>" "''user@example.org''"
        "example_world (example_config None None False) (Some ''user@example.org'')" Timeout]
    subscribe_http_error_or_transport
    [of "example_env (Returns \<lparr>status_code = 302, decoded = Some (JObj [(''status'', JBool False)])\<rparr>)"
        "\<lparr>status_code = 302, decoded = Some (JObj [(''status'', JBool False)])\<rparr>" "''user@example.org''"
        "example_world (example_config None None False) (Some ''user@example.org'')" Timeout]
    subscribe_http_error_or_transport
    [of "example_env (Raises Timeout)"
        "\<lparr>status_code = 500, decoded = None\<rparr>" "''user@example.org''"
        "example_world (example_config None None False) (Some ''user@example.org'')" Timeout]
  by (simp add: example_env_def example_world_def example_config_def http_error_def)

text \<open>
  C2 as stated fails: a \<open>ConnectionError\<close> of the POST leaves \<open>subscribe\<close> as an
  exception, with no notification; and a response with status 304, which is not a 2xx
  status, and body \<open>{"status": true}\<close> counts as a success, with no notification.
\<close>

theorem subscribe_transport_failure_counterexample:
  "subscribe (example_env (Raises ConnectionError)) ''user@example.org''
        (example_world (example_config None None False) (Some ''user@example.org''))
     = (Inl ConnectionError,
        (example_world (example_config None None False) (Some ''user@example.org''))
          \<lparr>posts := [subscribe_request (example_env (Raises ConnectionError)) ''user@example.org'']\<rparr>)
   \<and> subscribe (example_env (Returns \<lparr>status_code = 304, decoded = Some (JObj [(''status'', JBool True)])\<rparr>))
        ''user@example.org'' (example_world (example_config None None False) (Some ''user@example.org''))
     = (Inr (),
        (example_world (example_config None None False) (Some ''user@example.org''))
          \<lparr>posts := [subscribe_request
             (example_env (Returns \<lparr>status_code = 304, decoded = Some (JObj [(''status'', JBool True)])\<rparr>))
             ''user@example.org'']\<rparr>)"
  by (simp add: subscribe_def example_env_def example_world_def example_config_def
      check_response_def check_response_try_def raise_for_status_def response_json_def)

text \<open>
  C5 (where the code departs from it). A 2xx response whose body is JSON but no object
  (an array, a string, a number, a boolean, null) has no status field, and
  \<open>_check_response\<close> has no branch for it: the subscript raises a \<open>TypeError\<close> that neither
  \<open>except\<close> clause catches, nothing is shown to the user, and the exception leaves
  \<open>_check_response\<close>.
\<close>

theorem check_response_non_object_body:
  "200 \<le> status_code r \<Longrightarrow> status_code r < 300 \<Longrightarrow> decoded r = Some j \<Longrightarrow> \<not> is_object j \<Longrightarrow>
     check_response r w = (Inl (TypeError NotSubscriptable), w)"
  by (rule check_response_not_object) (simp_all add: http_error_def)

theorem check_response_non_object_body_witness:
  "(200::nat) \<le> status_code \<lparr>status_code = 200, decoded = Some (JArr [])\<rparr>
   \<and> status_code \<lparr>status_code = 200, decoded = Some (JArr [])\<rparr> < 300
   \<and> \<not> is_object (JArr [])
   \<and> check_response \<lparr>status_code = 200, decoded = Some (JArr [])\<rparr>
        (example_world (example_config None None False) (Some ''user@example.org''))
      = (Inl (TypeError NotSubscriptable),
         example_world (example_config None None False) (Some ''user@example.org''))"
  using check_response_non_object_body
    [of "\<lparr>status_code = 200, decoded = Some (JArr [])\<rparr>" "JArr []"
        "example_world (example_config None None False) (Some ''user@example.org'')"]
  by simp

section \<open>prepare\_subscription\<close>

text \<open>
  C6. When \<open>config.eff_email\<close> is \<open>False\<close>, \<open>prepare_subscription\<close> returns at once and
  leaves the whole world as it was: nothing is shown or asked, no address is validated,
  the configuration, the account metadata and the storage are unchanged.
\<close>

theorem prepare_subscription_opt_out:
  "eff_email (config w) = Some False \<Longrightarrow> prepare_subscription env w = (Inr (), w)"
  by (simp add: prepare_subscription_def)

theorem prepare_subscription_opt_out_witness:
  "eff_email (config (example_world (example_config (Some False) (Some ''user@example.org'') False) None))
     = Some False
   \<and> prepare_subscription (example_env (Raises Timeout))
        (example_world (example_config (Some False) (Some ''user@example.org'') False) None)
     = (Inr (), example_world (example_config (Some False) (Some ''user@example.org'') False) None)"
  using prepare_subscription_opt_out
    [of "example_world (example_config (Some False) (Some ''user@example.org'') False) None"
        "example_env (Raises Timeout)"]
  by (simp add: example_world_def example_config_def)

text \<open>What lines 33-39 come to, the loop being what \<open>reask_loop_once\<close> says.\<close>

lemma address_rejected_frame:
  "address_rejected env w = (b, w1) \<Longrightarrow> w1 = w\<lparr>validated := validated w1\<rparr>"
  by (auto simp: address_rejected_def split: option.splits if_splits)

lemma stage_address_eq:
  "stage_address env w =
     (if \<not> truthy_str (eff_email_address (config w)) then (Inl (NameError ''config''), w)
      else
        (case address_rejected env w of
           (rejected, w1) \<Rightarrow>
             if rejected then (Inl (NameError ''invalid''), w1)
             else
               (case acc w1 of
                  None \<Rightarrow> (Inl AttributeError, w1)
                | Some a \<Rightarrow>
                   (Inr Next,
                    w1\<lparr>acc := Some (a\<lparr>meta := (meta a)\<lparr>register_to_eff :=
                                           eff_email_address (config w1)\<rparr>\<rparr>)\<rparr>))))"
  by (simp add: stage_address_def reask_loop_once reuse_email_msg_def
      del: reask_loop.simps split: prod.splits)

lemma prepare_subscription_unset:
  "eff_email (config w) = None \<Longrightarrow>
     prepare_subscription env w = (Inl (TypeError MissingArgument), w)"
  by (simp add: prepare_subscription_def)

lemma prepare_subscription_yes:
  "eff_email (config w) = Some True \<Longrightarrow>
     prepare_subscription env w =
       (case stage_address env w of
          (Inl e, w2) \<Rightarrow> (Inl e, w2)
        | (Inr Returned, w2) \<Rightarrow> (Inr (), w2)
        | (Inr Next, w2) \<Rightarrow> persist_pending w2)"
  by (simp add: prepare_subscription_def)

text \<open>The one way through \<open>prepare_subscription\<close> that stages an address: --eff-mail
  with an address given beforehand that the validator accepts. It is staged and
  persisted, and nothing is asked.\<close>

lemma prepare_subscription_valid_address:
  "eff_email (config w) = Some True \<Longrightarrow> eff_email_address (config w) = Some a \<Longrightarrow>
   a \<noteq> [] \<Longrightarrow> safe_email env a \<Longrightarrow> acc w = Some ac \<Longrightarrow>
     prepare_subscription env w =
       (Inr (), w\<lparr>validated := validated w @ [a],
                  acc := Some (ac\<lparr>meta := (meta ac)\<lparr>register_to_eff := Some a\<rparr>\<rparr>),
                  storage := storage w @ [(meta ac)\<lparr>register_to_eff := Some a\<rparr>]\<rparr>)"
  by (simp add: prepare_subscription_yes stage_address_eq address_rejected_def
      persist_pending_def update_meta_def)

text \<open>
  C4 (where the code departs from it). With \<open>config.eff_email\<close> unset, line 32 calls
  \<open>_want_subscription()\<close> with no argument, and the function requires one:
  \<open>prepare_subscription\<close> ends in a \<open>TypeError\<close> with the world untouched. No consent
  question is shown and no address is obtained, whatever the user would have answered.
\<close>

theorem prepare_subscription_unset_raises:
  "eff_email (config w) = None \<Longrightarrow>
     prepare_subscription env w = (Inl (TypeError MissingArgument), w)"
  by (simp add: prepare_subscription_def)

theorem prepare_subscription_unset_raises_witness:
  "eff_email (config (example_world (example_config None None False) None)) = None
   \<and> prepare_subscription (example_env (Raises Timeout))
        (example_world (example_config None None False) None)
     = (Inl (TypeError MissingArgument), example_world (example_config None None False) None)"
  using prepare_subscription_unset_raises
    [of "example_world (example_config None None False) None" "example_env (Raises Timeout)"]
  by (simp add: example_world_def example_config_def)

text \<open>
  C3 (where the code departs from it). With --eff-mail and an address given beforehand
  that the validator rejects, the loop is entered and its first statement, the re-asked
  consent of line 36, raises \<open>NameError\<close> before any question is shown:
  \<open>prepare_subscription\<close> does not return normally. The account metadata and the storage
  are unchanged; the one trace is the validation of the address.
\<close>

theorem prepare_subscription_invalid_address_raises:
  "eff_email (config w) = Some True \<Longrightarrow> eff_email_address (config w) = Some a \<Longrightarrow>
   a \<noteq> [] \<Longrightarrow> \<not> safe_email env a \<Longrightarrow>
     prepare_subscription env w =
       (Inl (NameError ''invalid''), w\<lparr>validated := validated w @ [a]\<rparr>)"
  by (simp add: prepare_subscription_yes stage_address_eq address_rejected_def)

theorem prepare_subscription_invalid_address_raises_witness:
  "eff_email (config (example_world (example_config (Some True) (Some ''nobody'') False) None))
     = Some True
   \<and> eff_email_address
         (config (example_world (example_config (Some True) (Some ''nobody'') False) None))
     = Some ''nobody''
   \<and> ''nobody'' \<noteq> []
   \<and> \<not> safe_email (example_env (Raises Timeout)) ''nobody''
   \<and> prepare_subscription (example_env (Raises Timeout))
        (example_world (example_config (Some True) (Some ''nobody'') False) None)
     = (Inl (NameError ''invalid''),
        (example_world (example_config (Some True) (Some ''nobody'') False) None)
          \<lparr>validated := [''nobody'']\<rparr>)"
  using prepare_subscription_invalid_address_raises
    [of "example_world (example_config (Some True) (Some ''nobody'') False) None" "''nobody''"
        "example_env (Raises Timeout)"]
  by (simp add: example_world_def example_config_def example_env_def example_safe_email_def)

lemma persist_pending_frame:
  "config (snd (persist_pending w)) = config w \<and> display (snd (persist_pending w)) = display w"
  by (simp add: persist_pending_def update_meta_def split: option.splits)

lemma stage_address_frame:
  "config (snd (stage_address env w)) = config w \<and>
   display (snd (stage_address env w)) = display w"
  by (auto simp: stage_address_eq address_rejected_def split: option.splits prod.splits)

lemma prepare_subscription_frame:
  "config (snd (prepare_subscription env w)) = config w \<and>
   display (snd (prepare_subscription env w)) = display w"
proof (cases "eff_email (config w)")
  case None
  then show ?thesis by (simp add: prepare_subscription_unset)
next
  case (Some b)
  show ?thesis
  proof (cases b)
    case False
    with Some show ?thesis by (simp add: prepare_subscription_def)
  next
    case True
    obtain x w2 where s: "stage_address env w = (x, w2)" by (cases "stage_address env w")
    with stage_address_frame [of env w] have f: "config w2 = config w" "display w2 = display w"
      by simp_all
    from Some True s f persist_pending_frame [of w2] show ?thesis
      by (auto simp: prepare_subscription_yes split: sum.splits flow.splits)
  qed
qed

text \<open>
  C9 (where the code departs from it). No run of \<open>prepare_subscription\<close> changes the
  configuration: the two assignments to \<open>config.eff_email_address\<close> (lines 34 and 38)
  wait for \<open>_get_subscription_email\<close> to return, and it raises on every call, so no
  address is ever obtained interactively and none is written back.
\<close>

theorem prepare_subscription_keeps_config:
  "config (snd (prepare_subscription env w)) = config w"
  by (simp add: prepare_subscription_frame)




end
